theory Spec2Isabelle
  imports Main "HOL-Library.Word"
begin

unbundle bit_operations_syntax

section \<open>Python values used by the bridge\<close>

text \<open>
  A Python \<open>str\<close> is a sequence of Unicode code points; it is modelled as the list of
  those code points. \<open>py\<close> turns an ASCII literal of the source into that form.
\<close>

type_synonym pystr = "nat list"

definition py :: "string \<Rightarrow> pystr" where
  "py s = map of_char s"

text \<open>
  A Python \<open>float\<close> is an IEEE 754 binary64. The model keeps its bit pattern and never
  computes with it: the two conversions between floats and text that the \<open>json\<close>
  module calls (\<open>float(s)\<close> when decoding, \<open>float.__repr__\<close> with the three special names
  when encoding) are parameters of the model. So are the two limits of the interpreter that
  decoding can meet: \<open>sys.get_int_max_str_digits()\<close>, 4300 unless the interpreter is
  configured otherwise, and the number of nested calls left before the recursion limit when
  \<open>resp.json()\<close> starts to decode.
\<close>

type_synonym pyfloat = "64 word"

record pylib =
  parse_float :: "pystr \<Rightarrow> pyfloat"
  floatstr :: "pyfloat \<Rightarrow> pystr"
  int_max_str_digits :: nat
  recursion_remaining :: nat

text \<open>
  The values \<open>json.loads\<close> produces and \<open>json.dumps\<close> consumes. A \<open>dict\<close> keeps its
  insertion order, so it is an association list; its keys are strings.
\<close>

datatype json =
    JNull
  | JBool bool
  | JInt int
  | JFloat pyfloat
  | JStr pystr
  | JList "json list"
  | JDict "(pystr \<times> json) list"

text \<open>\<open>d[k] = v\<close>: an existing key keeps its position, a new key goes last.\<close>

fun dict_set :: "('k \<times> 'v) list \<Rightarrow> 'k \<Rightarrow> 'v \<Rightarrow> ('k \<times> 'v) list" where
  "dict_set [] k v = [(k, v)]"
| "dict_set ((k', v') # d) k v = (if k' = k then (k, v) # d else (k', v') # dict_set d k v)"

text \<open>\<open>dict(pairs)\<close>\<close>

definition dict_of_pairs :: "('k \<times> 'v) list \<Rightarrow> ('k \<times> 'v) list" where
  "dict_of_pairs pairs = foldl (\<lambda>d (k, v). dict_set d k v) [] pairs"

text \<open>\<open>d.get(k)\<close>\<close>

definition dict_get :: "('k \<times> 'v) list \<Rightarrow> 'k \<Rightarrow> 'v option" where
  "dict_get d k = map_of d k"

text \<open>Truthiness of an optional string: \<open>None\<close> and \<open>""\<close> are false.\<close>

fun truthy :: "pystr option \<Rightarrow> bool" where
  "truthy None = False"
| "truthy (Some s) = (s \<noteq> [])"

section \<open>Responses and exceptions\<close>

text \<open>The response object: status line, final URL and the decoded body text.\<close>

record response =
  status_code :: nat
  reason :: pystr
  url :: pystr
  text_body :: pystr

text \<open>
  The exceptions that leave \<open>_api\<close>: \<open>requests.exceptions.Timeout\<close> and
  \<open>ConnectionError\<close> from the call itself (the specification's \<open>TransportError\<close>) and
  \<open>TooManyRedirects\<close> when the library gives up following redirects; \<open>HTTPError\<close> from
  \<open>raise_for_status\<close> with its message and the response it holds (the specification's
  \<open>UpstreamError\<close>); and from \<open>resp.json()\<close> the library's \<open>JSONDecodeError\<close> for a text
  that is not JSON and the interpreter's \<open>ValueError\<close> and \<open>RecursionError\<close> for an integer
  with too many digits and for too deep a nesting.
\<close>

datatype error =
    Timeout
  | ConnectionError
  | TooManyRedirects
  | HTTPError pystr response
  | JSONDecodeError
  | ValueError
  | RecursionError


section \<open>\<open>json.loads\<close>\<close>

text \<open>
  The decoder of the standard library, as its C scanner behaves (the default in CPython):
  JSON whitespace is space, tab, line feed and carriage return; digits are ASCII digits.
\<close>

definition is_ws :: "nat \<Rightarrow> bool" where
  "is_ws c \<longleftrightarrow> c = 32 \<or> c = 9 \<or> c = 10 \<or> c = 13"

definition skip_ws :: "pystr \<Rightarrow> pystr" where
  "skip_ws s = dropWhile is_ws s"

definition is_digit :: "nat \<Rightarrow> bool" where
  "is_digit c \<longleftrightarrow> 48 \<le> c \<and> c \<le> 57"

text \<open>Value of one hexadecimal digit, in either case.\<close>

definition hexval :: "nat \<Rightarrow> nat option" where
  "hexval c =
     (if 48 \<le> c \<and> c \<le> 57 then Some (c - 48)
      else if 97 \<le> c \<and> c \<le> 102 then Some (c - 87)
      else if 65 \<le> c \<and> c \<le> 70 then Some (c - 55)
      else None)"

text \<open>\<open>_decode_uXXXX\<close>: the four characters after \<open>\u\<close>, read as a hexadecimal number.\<close>

fun decode_uXXXX :: "pystr \<Rightarrow> nat option" where
  "decode_uXXXX (a # b # c # d # r) =
     (case (hexval a, hexval b, hexval c, hexval d) of
        (Some x, Some y, Some z, Some w) \<Rightarrow> Some (((x * 16 + y) * 16 + z) * 16 + w)
      | _ \<Rightarrow> None)"
| "decode_uXXXX _ = None"

text \<open>The \<open>BACKSLASH\<close> table of one-letter escapes.\<close>

definition backslash :: "nat \<Rightarrow> nat option" where
  "backslash e =
     (if e = 34 then Some 34
      else if e = 92 then Some 92
      else if e = 47 then Some 47
      else if e = 98 then Some 8
      else if e = 102 then Some 12
      else if e = 110 then Some 10
      else if e = 114 then Some 13
      else if e = 116 then Some 9
      else None)"

text \<open>
  \<open>scanstring\<close> (strict): the input starts after the opening quote; the result is the
  decoded string and the input after the closing quote, or \<open>None\<close> for a \<open>JSONDecodeError\<close>.
  A high surrogate escape that is directly followed by a low surrogate escape is combined
  into one code point.
\<close>

fun scanstring :: "pystr \<Rightarrow> (pystr \<times> pystr) option" where
  "scanstring [] = None"
| "scanstring (c # s) =
     (if c = 34 then Some ([], s)
      else if c = 92 then
        (case s of
           [] \<Rightarrow> None
         | e # s1 \<Rightarrow>
             if e \<noteq> 117 then
               (case backslash e of
                  None \<Rightarrow> None
                | Some ch \<Rightarrow>
                    (case scanstring s1 of
                       None \<Rightarrow> None
                     | Some (x, r) \<Rightarrow> Some (ch # x, r)))
             else
               (case decode_uXXXX s1 of
                  None \<Rightarrow> None
                | Some uni \<Rightarrow>
                    if 55296 \<le> uni \<and> uni \<le> 56319 \<and> take 2 (drop 4 s1) = [92, 117] then
                      (case decode_uXXXX (drop 6 s1) of
                         None \<Rightarrow> None
                       | Some uni2 \<Rightarrow>
                           if 56320 \<le> uni2 \<and> uni2 \<le> 57343 then
                             (case scanstring (drop 10 s1) of
                                None \<Rightarrow> None
                              | Some (x, r) \<Rightarrow>
                                  Some ((65536 + (push_bit 10 (uni - 55296) OR (uni2 - 56320))) # x, r))
                           else
                             (case scanstring (drop 4 s1) of
                                None \<Rightarrow> None
                              | Some (x, r) \<Rightarrow> Some (uni # x, r)))
                    else
                      (case scanstring (drop 4 s1) of
                         None \<Rightarrow> None
                       | Some (x, r) \<Rightarrow> Some (uni # x, r))))
      else if c < 32 then None
      else
        (case scanstring s of
           None \<Rightarrow> None
         | Some (x, r) \<Rightarrow> Some (c # x, r)))"

text \<open>
  The number pattern \<open>-?(0|[1-9][0-9]*)(\.[0-9]+)?([eE][-+]?[0-9]+)?\<close>, matched at the
  start of the input: the integer part, the fraction, the exponent (each empty when absent)
  and the input after the match.
\<close>

definition match_frac :: "pystr \<Rightarrow> pystr \<times> pystr" where
  "match_frac s =
     (case s of
        c # r \<Rightarrow>
          if c = 46 \<and> takeWhile is_digit r \<noteq> [] then (c # takeWhile is_digit r, dropWhile is_digit r)
          else ([], s)
      | [] \<Rightarrow> ([], s))"

definition match_exp :: "pystr \<Rightarrow> pystr \<times> pystr" where
  "match_exp s =
     (case s of
        c # r \<Rightarrow>
          if c = 101 \<or> c = 69 then
            (let (sg, r1) = (case r of
                               x # r2 \<Rightarrow> if x = 45 \<or> x = 43 then ([x], r2) else ([], r)
                             | [] \<Rightarrow> ([], r))
             in if takeWhile is_digit r1 \<noteq> [] then (c # sg @ takeWhile is_digit r1, dropWhile is_digit r1)
                else ([], s))
          else ([], s)
      | [] \<Rightarrow> ([], s))"

definition match_tail :: "pystr \<Rightarrow> pystr \<Rightarrow> pystr \<times> pystr \<times> pystr \<times> pystr" where
  "match_tail integer s =
     (let (frac, s1) = match_frac s; (ex, s2) = match_exp s1 in (integer, frac, ex, s2))"

definition match_number :: "pystr \<Rightarrow> (pystr \<times> pystr \<times> pystr \<times> pystr) option" where
  "match_number s =
     (let (sg, s1) = (case s of
                        c # r \<Rightarrow> if c = 45 then ([c], r) else ([], s)
                      | [] \<Rightarrow> ([], s))
      in case s1 of
           [] \<Rightarrow> None
         | d # r \<Rightarrow>
             if d = 48 then Some (match_tail (sg @ [d]) r)
             else if 49 \<le> d \<and> d \<le> 57 then
               Some (match_tail (sg @ d # takeWhile is_digit r) (dropWhile is_digit r))
             else None)"

text \<open>\<open>int(s)\<close> on what the pattern's integer part matches: decimal digits after an optional minus.\<close>

definition nat_of_digits :: "pystr \<Rightarrow> nat" where
  "nat_of_digits s = foldl (\<lambda>a c. 10 * a + (c - 48)) 0 s"

definition parse_int :: "pystr \<Rightarrow> int" where
  "parse_int s =
     (case s of
        c # r \<Rightarrow> if c = 45 then - int (nat_of_digits r) else int (nat_of_digits s)
      | [] \<Rightarrow> 0)"

text \<open>
  \<open>int(s)\<close> raises \<open>ValueError\<close> for a text with more digits than the limit: texts of up to
  640 digits are never refused, and the limit 0 turns the check off.
\<close>

definition int_too_long :: "pylib \<Rightarrow> pystr \<Rightarrow> bool" where
  "int_too_long L s \<longleftrightarrow>
     (let digits = length (filter is_digit s)
      in 640 < digits \<and> 0 < int_max_str_digits L \<and> int_max_str_digits L < digits)"

text \<open>
  What scanning one value gives: the exception raised, or the value and the input after it.
  \<open>Exhausted\<close> is the model's own: the counter of the recursion below has run out.
\<close>

datatype scanned = Exhausted | Raised error | Scanned json pystr

text \<open>
  \<open>scan_once\<close>, \<open>JSONObject\<close> and \<open>JSONArray\<close>. The scanner enters a recursive call of the
  interpreter for every object and array, before it looks at what is inside: \<open>k\<close> is the
  number of such calls left, and with none left it raises \<open>RecursionError\<close>. The model
  recurses on a counter \<open>n\<close>, which \<open>loads\<close> starts high enough for the text.
  \<open>object_loop\<close> starts after the opening quote of a key, \<open>array_loop\<close> at the first
  character of an element.
\<close>

fun scan_once :: "pylib \<Rightarrow> nat \<Rightarrow> nat \<Rightarrow> pystr \<Rightarrow> scanned"
  and object_loop :: "pylib \<Rightarrow> nat \<Rightarrow> nat \<Rightarrow> (pystr \<times> json) list \<Rightarrow> pystr \<Rightarrow> scanned"
  and array_loop :: "pylib \<Rightarrow> nat \<Rightarrow> nat \<Rightarrow> json list \<Rightarrow> pystr \<Rightarrow> scanned"
where
  "scan_once L 0 k s = Exhausted"
| "scan_once L (Suc n) k [] = Raised JSONDecodeError"
| "scan_once L (Suc n) k (c # r) =
     (if c = 34 then
        (case scanstring r of None \<Rightarrow> Raised JSONDecodeError | Some (x, r1) \<Rightarrow> Scanned (JStr x) r1)
      else if c = 123 then
        (case k of
           0 \<Rightarrow> Raised RecursionError
         | Suc k1 \<Rightarrow>
             (case skip_ws r of
                [] \<Rightarrow> Raised JSONDecodeError
              | d # r1 \<Rightarrow>
                  if d = 125 then Scanned (JDict []) r1
                  else if d = 34 then object_loop L n k1 [] r1
                  else Raised JSONDecodeError))
      else if c = 91 then
        (case k of
           0 \<Rightarrow> Raised RecursionError
         | Suc k1 \<Rightarrow>
             (case skip_ws r of
                [] \<Rightarrow> Raised JSONDecodeError
              | d # r1 \<Rightarrow>
                  if d = 93 then Scanned (JList []) r1
                  else array_loop L n k1 [] (d # r1)))
      else if take 4 (c # r) = py ''null'' then Scanned JNull (drop 4 (c # r))
      else if take 4 (c # r) = py ''true'' then Scanned (JBool True) (drop 4 (c # r))
      else if take 5 (c # r) = py ''false'' then Scanned (JBool False) (drop 5 (c # r))
      else
        (case match_number (c # r) of
           Some (integer, frac, ex, r1) \<Rightarrow>
             if frac \<noteq> [] \<or> ex \<noteq> [] then Scanned (JFloat (parse_float L (integer @ frac @ ex))) r1
             else if int_too_long L integer then Raised ValueError
             else Scanned (JInt (parse_int integer)) r1
         | None \<Rightarrow>
             if take 3 (c # r) = py ''NaN'' then
               Scanned (JFloat (parse_float L (py ''NaN''))) (drop 3 (c # r))
             else if take 8 (c # r) = py ''Infinity'' then
               Scanned (JFloat (parse_float L (py ''Infinity''))) (drop 8 (c # r))
             else if take 9 (c # r) = py ''-Infinity'' then
               Scanned (JFloat (parse_float L (py ''-Infinity''))) (drop 9 (c # r))
             else Raised JSONDecodeError))"
| "object_loop L 0 k pairs s = Exhausted"
| "object_loop L (Suc n) k pairs s =
     (case scanstring s of
        None \<Rightarrow> Raised JSONDecodeError
      | Some (key, s1) \<Rightarrow>
          (case skip_ws s1 of
             [] \<Rightarrow> Raised JSONDecodeError
           | c # s2 \<Rightarrow>
               if c \<noteq> 58 then Raised JSONDecodeError
               else
                 (case scan_once L n k (skip_ws s2) of
                    Scanned v s3 \<Rightarrow>
                      (case skip_ws s3 of
                         [] \<Rightarrow> Raised JSONDecodeError
                       | d # s4 \<Rightarrow>
                           if d = 125 then Scanned (JDict (dict_of_pairs (pairs @ [(key, v)]))) s4
                           else if d = 44 then
                             (case skip_ws s4 of
                                [] \<Rightarrow> Raised JSONDecodeError
                              | q # s5 \<Rightarrow>
                                  if q = 34 then object_loop L n k (pairs @ [(key, v)]) s5
                                  else Raised JSONDecodeError)
                           else Raised JSONDecodeError)
                  | stopped \<Rightarrow> stopped)))"
| "array_loop L 0 k vals s = Exhausted"
| "array_loop L (Suc n) k vals s =
     (case scan_once L n k s of
        Scanned v s1 \<Rightarrow>
          (case skip_ws s1 of
             [] \<Rightarrow> Raised JSONDecodeError
           | d # s2 \<Rightarrow>
               if d = 93 then Scanned (JList (vals @ [v])) s2
               else if d = 44 then array_loop L n k (vals @ [v]) (skip_ws s2)
               else Raised JSONDecodeError)
      | stopped \<Rightarrow> stopped)"

text \<open>
  \<open>JSONDecoder.decode\<close>: leading whitespace, one value, trailing whitespace, and nothing
  else (\<open>Extra data\<close> otherwise). The counter starts at twice the length of the text.
\<close>

definition loads :: "pylib \<Rightarrow> pystr \<Rightarrow> error + json" where
  "loads L s =
     (case scan_once L (Suc (2 * length s)) (recursion_remaining L) (skip_ws s) of
        Exhausted \<Rightarrow> Inl JSONDecodeError
      | Raised e \<Rightarrow> Inl e
      | Scanned v r \<Rightarrow> if skip_ws r = [] then Inr v else Inl JSONDecodeError)"

section \<open>\<open>json.dumps(obj, indent=2)\<close>\<close>

text \<open>
  The encoder with its defaults (\<open>ensure_ascii=True\<close>, separators \<open>","\<close> and \<open>": "\<close>) and
  an indentation of two spaces for each level.
\<close>

definition hexdigit :: "nat \<Rightarrow> nat" where
  "hexdigit d = (if d < 10 then 48 + d else 87 + d)"

text \<open>\<open>'{0:04x}'.format(n)\<close> for \<open>n < 0x10000\<close>\<close>

definition hex4 :: "nat \<Rightarrow> pystr" where
  "hex4 n = [hexdigit (n div 4096 mod 16), hexdigit (n div 256 mod 16),
             hexdigit (n div 16 mod 16), hexdigit (n mod 16)]"

text \<open>
  The replacement \<open>py_encode_basestring_ascii\<close> makes for one character: the table
  \<open>ESCAPE_DCT\<close>, printable ASCII unchanged, \<open>\uXXXX\<close> below \<open>0x10000\<close> and a surrogate
  pair above.
\<close>

definition escape_char :: "nat \<Rightarrow> pystr" where
  "escape_char c =
     (if c = 92 then [92, 92]
      else if c = 34 then [92, 34]
      else if c = 8 then [92, 98]
      else if c = 12 then [92, 102]
      else if c = 10 then [92, 110]
      else if c = 13 then [92, 114]
      else if c = 9 then [92, 116]
      else if 32 \<le> c \<and> c \<le> 126 then [c]
      else if c < 65536 then [92, 117] @ hex4 c
      else
        (let n = c - 65536;
             s1 = 55296 OR (drop_bit 10 n AND 1023);
             s2 = 56320 OR (n AND 1023)
         in [92, 117] @ hex4 s1 @ [92, 117] @ hex4 s2))"

definition encode_basestring_ascii :: "pystr \<Rightarrow> pystr" where
  "encode_basestring_ascii s = 34 # concat (map escape_char s) @ [34]"

text \<open>\<open>int.__repr__\<close>\<close>

fun digits_of_nat :: "nat \<Rightarrow> pystr" where
  "digits_of_nat n = (if n < 10 then [48 + n] else digits_of_nat (n div 10) @ [48 + n mod 10])"

declare digits_of_nat.simps [simp del]

definition intstr :: "int \<Rightarrow> pystr" where
  "intstr i = (if i < 0 then 45 # digits_of_nat (nat (- i)) else digits_of_nat (nat i))"

definition newline_indent :: "nat \<Rightarrow> pystr" where
  "newline_indent lvl = 10 # replicate (2 * lvl) 32"

text \<open>The chunks of the items of a container, the separator before every item but the first.\<close>

fun join :: "pystr \<Rightarrow> pystr list \<Rightarrow> pystr" where
  "join sep [] = []"
| "join sep [x] = x"
| "join sep (x # y # ys) = x @ sep @ join sep (y # ys)"

text \<open>\<open>_iterencode\<close>, \<open>_iterencode_list\<close> and \<open>_iterencode_dict\<close>, the chunks concatenated.\<close>

fun iterencode :: "pylib \<Rightarrow> nat \<Rightarrow> json \<Rightarrow> pystr" where
  "iterencode L lvl (JStr s) = encode_basestring_ascii s"
| "iterencode L lvl JNull = py ''null''"
| "iterencode L lvl (JBool b) = (if b then py ''true'' else py ''false'')"
| "iterencode L lvl (JInt i) = intstr i"
| "iterencode L lvl (JFloat f) = floatstr L f"
| "iterencode L lvl (JList xs) =
     (if xs = [] then py ''[]''
      else [91] @ newline_indent (Suc lvl)
           @ join (44 # newline_indent (Suc lvl)) (map (\<lambda>v. iterencode L (Suc lvl) v) xs)
           @ newline_indent lvl @ [93])"
| "iterencode L lvl (JDict kvs) =
     (if kvs = [] then py ''{}''
      else [123] @ newline_indent (Suc lvl)
           @ join (44 # newline_indent (Suc lvl))
               (map (\<lambda>kv. encode_basestring_ascii (fst kv) @ [58, 32] @ iterencode L (Suc lvl) (snd kv)) kvs)
           @ newline_indent lvl @ [125])"

definition dumps_indent2 :: "pylib \<Rightarrow> json \<Rightarrow> pystr" where
  "dumps_indent2 L v = iterencode L 0 v"

section \<open>The HTTP library\<close>

text \<open>
  What \<open>requests.request(method, url, headers=..., timeout=30, **kwargs)\<close> is handed: the
  request as the bridge builds it. \<open>req_params\<close> and \<open>req_json\<close> are the \<open>params=\<close> and
  \<open>json=\<close> keyword arguments of a tool, passed through unchanged.
\<close>

record request =
  req_method :: pystr
  req_url :: pystr
  req_headers :: "(pystr \<times> pystr) list"
  req_timeout :: nat
  req_params :: "(pystr \<times> pystr) list option"
  req_json :: "json option"

text \<open>
  One call of \<open>requests.request\<close> either raises a transport exception or returns a response.
  The backend and the network are the environment: any function from the requests made so
  far and the present request to an outcome.
\<close>

datatype outcome = Raises error | Returns response

type_synonym network = "request list \<Rightarrow> request \<Rightarrow> outcome"

text \<open>
  \<open>Response.raise_for_status\<close> of the library: a status from 400 to 499 is a client error,
  from 500 to 599 a server error, and any other status raises nothing.
\<close>

definition raise_for_status :: "response \<Rightarrow> error option" where
  "raise_for_status resp =
     (if 400 \<le> status_code resp \<and> status_code resp < 500 then
        Some (HTTPError (digits_of_nat (status_code resp) @ py '' Client Error: '' @ reason resp
                         @ py '' for url: '' @ url resp) resp)
      else if 500 \<le> status_code resp \<and> status_code resp < 600 then
        Some (HTTPError (digits_of_nat (status_code resp) @ py '' Server Error: '' @ reason resp
                         @ py '' for url: '' @ url resp) resp)
      else None)"

section \<open>The HTTP library on the wire\<close>

text \<open>
  What one call of \<open>requests.request\<close> does between the bridge and the backend, after
  \<open>Session.send\<close>, \<open>SessionRedirectMixin.resolve_redirects\<close>, \<open>HTTPAdapter.send\<close> and
  \<open>Response.content\<close> of the library. The call sends a backend request, and one more for
  every redirect it follows; \<open>timeout=30\<close> becomes the connect timeout and the read timeout
  of each of them, so it bounds every single wait on the socket.

  An exchange is what happens to one backend request: how long the connection attempt
  takes and whether it fails (refused, unreachable); how long each successive read waits
  until the status line and the headers are in; the response the library builds from them,
  with the \<open>Location\<close> header if there is one; and how long each read of the body waits.
  Time is counted in the units of the timeout.
\<close>

record exchange =
  connect_wait :: nat
  refused :: bool
  header_waits :: "nat list"
  answer :: response
  location :: "pystr option"
  body_waits :: "nat list"

text \<open>
  A series of reads with the timeout \<open>t\<close> on each: whether all of them completed, and the
  time spent. A read that waits longer than \<open>t\<close> is given up after \<open>t\<close>.
\<close>

fun reads :: "nat \<Rightarrow> nat list \<Rightarrow> bool \<times> nat" where
  "reads t [] = (True, 0)"
| "reads t (w # ws) =
     (if t < w then (False, t)
      else (case reads t ws of (done, d) \<Rightarrow> (done, w + d)))"

text \<open>
  \<open>HTTPAdapter.send\<close>, up to the headers of the response: the exception it raises, if any,
  and the time spent. A connection attempt that takes too long is a \<open>ConnectTimeout\<close> and
  a read that does is a \<open>ReadTimeout\<close>, both of them a \<open>Timeout\<close>; a failed connection
  attempt is a \<open>ConnectionError\<close>. The adapter does not try again (\<open>Retry(0, read=False)\<close>).
\<close>

definition adapter_send :: "nat \<Rightarrow> exchange \<Rightarrow> error option \<times> nat" where
  "adapter_send t ex =
     (if t < connect_wait ex then (Some Timeout, t)
      else if refused ex then (Some ConnectionError, connect_wait ex)
      else (case reads t (header_waits ex) of
              (False, d) \<Rightarrow> (Some Timeout, connect_wait ex + d)
            | (True, d) \<Rightarrow> (None, connect_wait ex + d)))"

text \<open>
  \<open>Response.content\<close>: the body is read to its end; a read that takes too long there is
  raised as a \<open>ConnectionError\<close> (\<open>iter_content\<close>).
\<close>

definition read_content :: "nat \<Rightarrow> exchange \<Rightarrow> error option \<times> nat" where
  "read_content t ex =
     (case reads t (body_waits ex) of
        (False, d) \<Rightarrow> (Some ConnectionError, d)
      | (True, d) \<Rightarrow> (None, d))"

definition REDIRECT_STATI :: "nat list" where
  "REDIRECT_STATI = [301, 302, 303, 307, 308]"


text \<open>
  \<open>get_redirect_target\<close>: the \<open>Location\<close> of a response whose status is a redirect; the
  library follows it when it is not empty (\<open>while url:\<close>).
\<close>

definition get_redirect_target :: "exchange \<Rightarrow> pystr option" where
  "get_redirect_target ex =
     (case location ex of
        None \<Rightarrow> None
      | Some loc \<Rightarrow> if status_code (answer ex) \<in> set REDIRECT_STATI then Some loc else None)"

text \<open>
  What a call of the library comes to: the response it returns or the exception it raises,
  the number of backend requests it has sent and the time it has spent waiting.
\<close>

record library_call =
  outcome_of :: outcome
  backend_requests :: nat
  elapsed :: nat

text \<open>
  \<open>Session.send\<close> with \<open>allow_redirects=True\<close>, the default of \<open>requests.request\<close>. \<open>E i\<close> is
  the exchange of the backend request number \<open>i\<close> of the call, \<open>t\<close> the timeout and \<open>n\<close>
  the number of redirects the call may still follow: the response number \<open>i\<close> is read to its
  end, and when it is a redirect the next request is sent with the same timeout, unless
  \<open>max_redirects\<close> responses have been followed already (\<open>TooManyRedirects\<close>).
\<close>

fun send :: "(nat \<Rightarrow> exchange) \<Rightarrow> nat \<Rightarrow> nat \<Rightarrow> nat \<Rightarrow> library_call" where
  "send E t n i =
     (case adapter_send t (E i) of
        (Some e, d) \<Rightarrow> \<lparr>outcome_of = Raises e, backend_requests = Suc i, elapsed = d\<rparr>
      | (None, d) \<Rightarrow>
          (case read_content t (E i) of
             (Some e, d1) \<Rightarrow> \<lparr>outcome_of = Raises e, backend_requests = Suc i, elapsed = d + d1\<rparr>
           | (None, d1) \<Rightarrow>
               if truthy (get_redirect_target (E i)) then
                 (case n of
                    0 \<Rightarrow> \<lparr>outcome_of = Raises TooManyRedirects, backend_requests = Suc i,
                          elapsed = d + d1\<rparr>
                  | Suc m \<Rightarrow>
                      (case send E t m (Suc i) of
                         c \<Rightarrow> c\<lparr>elapsed := d + d1 + elapsed c\<rparr>))
               else \<lparr>outcome_of = Returns (answer (E i)), backend_requests = Suc i,
                     elapsed = d + d1\<rparr>))"

declare send.simps [simp del]






section \<open>The bridge: \<open>_api\<close>\<close>

text \<open>\<open>API_BASE\<close> and \<open>INTERNAL_KEY\<close>, read from the environment when the module is loaded.\<close>

record config =
  API_BASE :: pystr
  INTERNAL_KEY :: pystr

text \<open>
  The state of the process: the module variable \<open>_session_user_id\<close>, and the requests
  handed to the HTTP library so far, in order.
\<close>

record state =
  session_user_id :: "pystr option"
  sent :: "request list"

definition initial_state :: state where
  "initial_state = \<lparr>session_user_id = None, sent = []\<rparr>"

text \<open>The keyword arguments the tools pass to \<open>_api\<close>.\<close>

record kwargs =
  kw_headers :: "(pystr \<times> pystr) list option"
  kw_params :: "(pystr \<times> pystr) list option"
  kw_json :: "json option"

definition no_kwargs :: kwargs where
  "no_kwargs = \<lparr>kw_headers = None, kw_params = None, kw_json = None\<rparr>"

text \<open>
  The request \<open>_api\<close> builds, from the session identity as it is after the assignment of
  lines 38 and 39.
\<close>

definition build_request :: "config \<Rightarrow> pystr \<Rightarrow> pystr \<Rightarrow> kwargs \<Rightarrow> pystr option \<Rightarrow> request" where
  "build_request C meth path kw sid =
     (let headers = (case kw_headers kw of None \<Rightarrow> [] | Some h \<Rightarrow> h);
          headers1 = dict_set headers (py ''X-Internal-Key'') (INTERNAL_KEY C);
          headers2 = (if truthy sid then dict_set headers1 (py ''X-User-Id'') (the sid) else headers1)
      in \<lparr>req_method = meth, req_url = API_BASE C @ path, req_headers = headers2,
          req_timeout = 30, req_params = kw_params kw, req_json = kw_json kw\<rparr>)"

text \<open>
  \<open>_api(method, path, user_id=None, **kwargs)\<close>: the result or the exception raised, and
  the state afterwards.
\<close>

definition api ::
  "config \<Rightarrow> pylib \<Rightarrow> network \<Rightarrow> pystr \<Rightarrow> pystr \<Rightarrow> pystr option \<Rightarrow> kwargs \<Rightarrow> state \<Rightarrow> (error + json) \<times> state"
where
  "api C L net meth path user_id kw s =
     (let sid = (if truthy user_id then user_id else session_user_id s);
          req = build_request C meth path kw sid;
          s1 = \<lparr>session_user_id = sid, sent = sent s @ [req]\<rparr>
      in case net (sent s) req of
           Raises e \<Rightarrow> (Inl e, s1)
         | Returns resp \<Rightarrow>
             (case raise_for_status resp of
                Some e \<Rightarrow> (Inl e, s1)
              | None \<Rightarrow>
                  (case loads L (text_body resp) of
                     Inl e \<Rightarrow> (Inl e, s1)
                   | Inr v \<Rightarrow> (Inr v, s1))))"

section \<open>The tools\<close>

text \<open>
  Every tool makes one call of \<open>_api\<close> and returns \<open>json.dumps(result, indent=2)\<close>; an
  exception of \<open>_api\<close> leaves the tool unchanged. A parameter that has a default in the
  source is optional here, \<open>None\<close> standing for an argument the caller left out.
\<close>

definition render :: "pylib \<Rightarrow> (error + json) \<times> state \<Rightarrow> (error + pystr) \<times> state" where
  "render L r = (case fst r of Inl e \<Rightarrow> (Inl e, snd r) | Inr v \<Rightarrow> (Inr (dumps_indent2 L v), snd r))"

definition or_default :: "'a option \<Rightarrow> 'a \<Rightarrow> 'a" where
  "or_default x d = (case x of None \<Rightarrow> d | Some v \<Rightarrow> v)"

text \<open>Truthiness of an optional list or string: \<open>None\<close> and the empty one are false.\<close>

fun nonempty :: "'a list option \<Rightarrow> bool" where
  "nonempty None = False"
| "nonempty (Some xs) = (xs \<noteq> [])"

definition str_list :: "pystr list \<Rightarrow> json" where
  "str_list xs = JList (map JStr xs)"

definition search_filters ::
  "pystr list option \<Rightarrow> pystr list option \<Rightarrow> pystr option \<Rightarrow> pystr list option \<Rightarrow> (pystr \<times> json) list"
where
  "search_filters person_titles person_locations q_keywords organization_num_employees_ranges =
     (let filters = [];
          filters1 = (if nonempty person_titles
                      then dict_set filters (py ''person_titles'') (str_list (the person_titles))
                      else filters);
          filters2 = (if nonempty person_locations
                      then dict_set filters1 (py ''person_locations'') (str_list (the person_locations))
                      else filters1);
          filters3 = (if nonempty q_keywords
                      then dict_set filters2 (py ''q_keywords'') (JStr (the q_keywords))
                      else filters2);
          filters4 = (if nonempty organization_num_employees_ranges
                      then dict_set filters3 (py ''organization_num_employees_ranges'')
                             (str_list (the organization_num_employees_ranges))
                      else filters3)
      in filters4)"

datatype tool_call =
    Search_leads pystr "pystr list option" "pystr list option" "pystr option" "pystr list option"
  | Enrich_lead pystr
  | List_leads pystr "pystr option"
  | Get_lead pystr
  | Mark_do_not_contact pystr "pystr option"
  | Draft_message pystr pystr "pystr option"
  | Send_email pystr pystr pystr
  | Send_sms pystr pystr
  | Place_call pystr pystr pystr
  | Create_sequence pystr pystr "pystr option" "int option" "pystr option" "bool option"
  | Outreach_history pystr
  | Classify_reply pystr
  | Process_reply pystr pystr "pystr option"
  | Score_lead pystr
  | Get_hot_lead_notifications pystr
  | Summarize_pipeline pystr

text \<open>The arguments of the one \<open>_api\<close> call a tool makes: method, path, \<open>user_id\<close>, keywords.\<close>

fun api_args :: "tool_call \<Rightarrow> pystr \<times> pystr \<times> pystr option \<times> kwargs" where
  "api_args (Search_leads user_id person_titles person_locations q_keywords ranges) =
     (py ''POST'', py ''/leads/search'', Some user_id,
      no_kwargs\<lparr>kw_json := Some (JDict [(py ''filters'',
         JDict (search_filters person_titles person_locations q_keywords ranges))])\<rparr>)"
| "api_args (Enrich_lead lead_id) =
     (py ''POST'', py ''/leads/enrich/'' @ lead_id, None, no_kwargs)"
| "api_args (List_leads user_id temperature) =
     (py ''GET'', py ''/leads/list'', Some user_id,
      no_kwargs\<lparr>kw_params := Some (if nonempty temperature
                                      then dict_set [] (py ''temperature'') (the temperature)
                                      else [])\<rparr>)"
| "api_args (Get_lead lead_id) =
     (py ''GET'', py ''/leads/'' @ lead_id, None, no_kwargs)"
| "api_args (Mark_do_not_contact lead_id reason_arg) =
     (py ''POST'', py ''/leads/'' @ lead_id @ py ''/dnc'', None,
      no_kwargs\<lparr>kw_json := Some (JDict [(py ''reason'', JStr (or_default reason_arg (py ''manual'')))])\<rparr>)"
| "api_args (Draft_message lead_id channel context) =
     (py ''POST'', py ''/outreach/draft'', None,
      no_kwargs\<lparr>kw_json := Some (JDict [(py ''lead_id'', JStr lead_id), (py ''channel'', JStr channel),
                                          (py ''context'', JStr (or_default context []))])\<rparr>)"
| "api_args (Send_email lead_id subject content) =
     (py ''POST'', py ''/outreach/send/email'', None,
      no_kwargs\<lparr>kw_json := Some (JDict [(py ''lead_id'', JStr lead_id), (py ''subject'', JStr subject),
                                          (py ''content'', JStr content)])\<rparr>)"
| "api_args (Send_sms lead_id content) =
     (py ''POST'', py ''/outreach/send/sms'', None,
      no_kwargs\<lparr>kw_json := Some (JDict [(py ''lead_id'', JStr lead_id), (py ''content'', JStr content)])\<rparr>)"
| "api_args (Place_call lead_id script callback_url) =
     (py ''POST'', py ''/outreach/send/call'', None,
      no_kwargs\<lparr>kw_json := Some (JDict [(py ''lead_id'', JStr lead_id), (py ''script'', JStr script),
                                          (py ''callback_url'', JStr callback_url)])\<rparr>)"
| "api_args (Create_sequence lead_id user_id channel num_steps context auto_send) =
     (py ''POST'', py ''/outreach/sequence'', Some user_id,
      no_kwargs\<lparr>kw_json := Some (JDict [(py ''lead_id'', JStr lead_id),
                                          (py ''channel'', JStr (or_default channel (py ''email''))),
                                          (py ''num_steps'', JInt (or_default num_steps 3)),
                                          (py ''context'', JStr (or_default context [])),
                                          (py ''auto_send'', JBool (or_default auto_send False))])\<rparr>)"
| "api_args (Outreach_history lead_id) =
     (py ''GET'', py ''/outreach/history/'' @ lead_id, None, no_kwargs)"
| "api_args (Classify_reply reply_text) =
     (py ''POST'', py ''/scoring/classify'', None,
      no_kwargs\<lparr>kw_json := Some (JDict [(py ''reply_text'', JStr reply_text)])\<rparr>)"
| "api_args (Process_reply lead_id reply_text channel) =
     (py ''POST'', py ''/scoring/process-reply'', None,
      no_kwargs\<lparr>kw_json := Some (JDict [(py ''lead_id'', JStr lead_id), (py ''reply_text'', JStr reply_text),
                                          (py ''channel'', JStr (or_default channel (py ''email'')))])\<rparr>)"
| "api_args (Score_lead lead_id) =
     (py ''POST'', py ''/scoring/score/'' @ lead_id, None, no_kwargs)"
| "api_args (Get_hot_lead_notifications user_id) =
     (py ''GET'', py ''/notifications/hot-leads'', Some user_id, no_kwargs)"
| "api_args (Summarize_pipeline user_id) =
     (py ''GET'', py ''/notifications/pipeline-summary'', Some user_id, no_kwargs)"

text \<open>One tool invocation, and a sequence of them in one process; the results are collected.\<close>

definition invoke ::
  "config \<Rightarrow> pylib \<Rightarrow> network \<Rightarrow> tool_call \<Rightarrow> state \<Rightarrow> (error + pystr) \<times> state"
where
  "invoke C L net call s =
     (case api_args call of
        (meth, path, user_id, kw) \<Rightarrow> render L (api C L net meth path user_id kw s))"

fun run :: "config \<Rightarrow> pylib \<Rightarrow> network \<Rightarrow> tool_call list \<Rightarrow> state \<Rightarrow> state" where
  "run C L net [] s = s"
| "run C L net (call # calls) s = run C L net calls (snd (invoke C L net call s))"

text \<open>The \<open>user_id\<close> a tool call hands to \<open>_api\<close>, when it is truthy.\<close>

definition supplied_user_id :: "tool_call \<Rightarrow> pystr option" where
  "supplied_user_id call =
     (case api_args call of
        (meth, path, user_id, kw) \<Rightarrow> if truthy user_id then user_id else None)"

text \<open>The most recent truthy \<open>user_id\<close> of a sequence of calls, if there is one.\<close>

fun last_user_id :: "tool_call list \<Rightarrow> pystr option" where
  "last_user_id [] = None"
| "last_user_id (call # calls) =
     (case last_user_id calls of
        Some u \<Rightarrow> Some u
      | None \<Rightarrow> supplied_user_id call)"

text \<open>The header of a request, by name.\<close>

definition header :: "request \<Rightarrow> pystr \<Rightarrow> pystr option" where
  "header req name = dict_get (req_headers req) name"

text \<open>The request a call of \<open>_api\<close> sends: the last one of the log afterwards.\<close>

definition last_sent :: "state \<Rightarrow> request option" where
  "last_sent s = (if sent s = [] then None else Some (last (sent s)))"




text \<open>
  The tools whose signature has no \<open>user_id\<close> parameter: they call \<open>_api\<close> without one.
\<close>

fun user_id_less :: "tool_call \<Rightarrow> bool" where
  "user_id_less (Search_leads user_id person_titles person_locations q_keywords ranges) = False"
| "user_id_less (Enrich_lead lead_id) = True"
| "user_id_less (List_leads user_id temperature) = False"
| "user_id_less (Get_lead lead_id) = True"
| "user_id_less (Mark_do_not_contact lead_id reason_arg) = True"
| "user_id_less (Draft_message lead_id channel context) = True"
| "user_id_less (Send_email lead_id subject content) = True"
| "user_id_less (Send_sms lead_id content) = True"
| "user_id_less (Place_call lead_id script callback_url) = True"
| "user_id_less (Create_sequence lead_id user_id channel num_steps context auto_send) = False"
| "user_id_less (Outreach_history lead_id) = True"
| "user_id_less (Classify_reply reply_text) = True"
| "user_id_less (Process_reply lead_id reply_text channel) = True"
| "user_id_less (Score_lead lead_id) = True"
| "user_id_less (Get_hot_lead_notifications user_id) = False"
| "user_id_less (Summarize_pipeline user_id) = False"

section \<open>Concrete inputs\<close>

text \<open>The configuration with the defaults of the source, and an interpreter with the default
  limit on the digits of an integer, room for 900 nested containers and a float library
  that is enough for texts without floats.\<close>

definition default_config :: config where
  "default_config = \<lparr>API_BASE = py ''http://localhost:5000'',
                       INTERNAL_KEY = py ''dev-internal-key-change-in-prod''\<rparr>"

definition toy_lib :: pylib where
  "toy_lib = \<lparr>parse_float = (\<lambda>s. 0), floatstr = (\<lambda>f. py ''0.0''),
               int_max_str_digits = 4300, recursion_remaining = 900\<rparr>"

definition not_found_response :: response where
  "not_found_response = \<lparr>status_code = 404, reason = py ''NOT FOUND'',
     url = py ''http://localhost:5000/leads/l1'', text_body = py ''{\"error\":\"not found\"}''\<rparr>"

definition net_not_found :: network where
  "net_not_found h r = Returns not_found_response"

definition multiple_choices_response :: response where
  "multiple_choices_response = \<lparr>status_code = 300, reason = py ''MULTIPLE CHOICES'',
     url = py ''http://localhost:5000/leads/l1'', text_body = py ''{\"error\":\"not found\"}''\<rparr>"

definition net_multiple_choices :: network where
  "net_multiple_choices h r = Returns multiple_choices_response"

definition net_timeout :: network where
  "net_timeout h r = Raises Timeout"










section \<open>Properties of the bridge\<close>

lemma dict_get_dict_set:
  "dict_get (dict_set d k v) k' = (if k' = k then Some v else dict_get d k')"
  by (induction d) (auto simp: dict_get_def)

lemma header_names_differ: "py ''X-User-Id'' \<noteq> py ''X-Internal-Key''"
  by (simp add: py_def)

lemma header_user_id:
  "header (build_request C meth path kw sid) (py ''X-User-Id'') =
     (if truthy sid then sid else dict_get (or_default (kw_headers kw) []) (py ''X-User-Id''))"
  by (cases sid)
     (auto simp: header_def build_request_def Let_def dict_get_dict_set or_default_def
                 header_names_differ split: option.splits)

lemma header_internal_key:
  "header (build_request C meth path kw sid) (py ''X-Internal-Key'') = Some (INTERNAL_KEY C)"
  using header_names_differ
  by (auto simp: header_def build_request_def Let_def dict_get_dict_set)

lemma snd_api:
  "snd (api C L net meth path user_id kw s) =
     \<lparr>session_user_id = (if truthy user_id then user_id else session_user_id s),
      sent = sent s @ [build_request C meth path kw (if truthy user_id then user_id else session_user_id s)]\<rparr>"
  by (simp add: api_def Let_def split: outcome.splits option.splits sum.splits)

lemma snd_render: "snd (render L r) = snd r"
  by (simp add: render_def split: sum.splits)

lemma snd_invoke:
  "snd (invoke C L net call s) =
     (case api_args call of (meth, path, user_id, kw) \<Rightarrow> snd (api C L net meth path user_id kw s))"
  by (simp add: invoke_def snd_render split: prod.splits)

lemma api_args_no_headers: "api_args call = (meth, path, user_id, kw) \<Longrightarrow> kw_headers kw = None"
  by (cases call) (auto simp: no_kwargs_def)

lemma session_after_invoke:
  "session_user_id (snd (invoke C L net call s))
     = (case supplied_user_id call of Some u \<Rightarrow> Some u | None \<Rightarrow> session_user_id s)"
proof -
  obtain meth path user_id kw where a: "api_args call = (meth, path, user_id, kw)"
    by (cases "api_args call") auto
  show ?thesis using a by (cases user_id) (simp_all add: snd_invoke snd_api supplied_user_id_def)
qed

lemma session_after_run:
  "session_user_id (run C L net calls s)
     = (case last_user_id calls of Some u \<Rightarrow> Some u | None \<Rightarrow> session_user_id s)"
proof (induction calls arbitrary: s)
  case Nil
  then show ?case by simp
next
  case (Cons call calls)
  then show ?case by (simp add: session_after_invoke split: option.splits)
qed

lemma supplied_truthy: "supplied_user_id call = Some u \<Longrightarrow> u \<noteq> []"
  by (cases "api_args call") (auto simp: supplied_user_id_def split: if_splits)

lemma last_user_id_truthy: "last_user_id calls = Some u \<Longrightarrow> u \<noteq> []"
  by (induction calls) (auto split: option.splits dest: supplied_truthy)

lemma user_id_less_args:
  "user_id_less call \<Longrightarrow> \<exists>meth path kw. api_args call = (meth, path, None, kw)"
  by (cases call) simp_all

lemma user_id_less_supplies_none: "user_id_less call \<Longrightarrow> supplied_user_id call = None"
  using user_id_less_args [of call] by (auto simp: supplied_user_id_def)

lemma header_of_invoke:
  "header (last (sent (snd (invoke C L net call s)))) (py ''X-User-Id'')
     = (case supplied_user_id call of
          Some u \<Rightarrow> Some u
        | None \<Rightarrow> if truthy (session_user_id s) then session_user_id s else None)"
proof -
  obtain meth path user_id kw where a: "api_args call = (meth, path, user_id, kw)"
    by (cases "api_args call") auto
  have k: "kw_headers kw = None" using a by (rule api_args_no_headers)
  show ?thesis
    using a k
    by (cases user_id)
       (simp_all add: snd_invoke snd_api header_user_id supplied_user_id_def or_default_def dict_get_def)
qed

text \<open>
  C1. In a state whose session identity is not the empty string (every state the tools reach
  from the start), and for keyword arguments that bring no \<open>X-User-Id\<close> of their own (no tool
  passes headers), the request \<open>_api\<close> sends has an \<open>X-User-Id\<close> header exactly when the session
  identity is set when the request is built, and the header is that identity. Every tool
  without a \<open>user_id\<close> parameter, invoked after any sequence of invocations whose most recent
  non-empty \<open>user_id\<close> is \<open>u\<close>, sends \<open>X-User-Id: u\<close>, whatever the state before the sequence;
  and every such tool, invoked after a sequence from the initial state that supplied no
  identifier, sends no \<open>X-User-Id\<close> at all.
\<close>

theorem user_header_iff_session:
  assumes "session_user_id s \<noteq> Some []"
    and "dict_get (or_default (kw_headers kw) []) (py ''X-User-Id'') = None"
  shows "header (last (sent (snd (api C L net meth path user_id kw s)))) (py ''X-User-Id'')
           = session_user_id (snd (api C L net meth path user_id kw s))
       \<and> (user_id_less call \<longrightarrow> last_user_id calls = Some u \<longrightarrow>
            header (last (sent (snd (invoke C L net call (run C L net calls s'))))) (py ''X-User-Id'')
              = Some u)
       \<and> (user_id_less call \<longrightarrow> last_user_id calls0 = None \<longrightarrow>
            header (last (sent (snd (invoke C L net call (run C L net calls0 initial_state)))))
              (py ''X-User-Id'') = None)"
proof -
  have a: "header (last (sent (snd (api C L net meth path user_id kw s)))) (py ''X-User-Id'')
           = session_user_id (snd (api C L net meth path user_id kw s))"
    using assms
    by (cases user_id; cases "session_user_id s")
       (auto simp: snd_api header_user_id)
  have b: "header (last (sent (snd (invoke C L net call (run C L net calls s'))))) (py ''X-User-Id'')
              = Some u"
    if "user_id_less call" "last_user_id calls = Some u"
    using that last_user_id_truthy [of calls u]
    by (simp add: header_of_invoke user_id_less_supplies_none session_after_run)
  have c: "header (last (sent (snd (invoke C L net call (run C L net calls0 initial_state)))))
              (py ''X-User-Id'') = None"
    if "user_id_less call" "last_user_id calls0 = None"
    using that
    by (simp add: header_of_invoke user_id_less_supplies_none session_after_run initial_state_def)
  show ?thesis using a b c by blast
qed

theorem user_header_iff_session_witness:
  "session_user_id initial_state \<noteq> Some []
   \<and> dict_get (or_default (kw_headers no_kwargs) []) (py ''X-User-Id'') = None
   \<and> user_id_less (Enrich_lead (py ''l1''))
   \<and> last_user_id [List_leads (py ''u1'') None, Get_lead (py ''l1'')] = Some (py ''u1'')
   \<and> last_user_id [Get_lead (py ''l1''), Summarize_pipeline []] = None
   \<and> header (last (sent (snd (api default_config toy_lib net_timeout (py ''GET'')
                 (py ''/leads/list'') (Some (py ''u1'')) no_kwargs initial_state)))) (py ''X-User-Id'')
       = Some (py ''u1'')
   \<and> header (last (sent (snd (invoke default_config toy_lib net_timeout (Enrich_lead (py ''l1''))
          (run default_config toy_lib net_timeout [List_leads (py ''u1'') None, Get_lead (py ''l1'')]
             initial_state))))) (py ''X-User-Id'') = Some (py ''u1'')
   \<and> header (last (sent (snd (invoke default_config toy_lib net_timeout (Enrich_lead (py ''l1''))
          (run default_config toy_lib net_timeout [Get_lead (py ''l1''), Summarize_pipeline []]
             initial_state))))) (py ''X-User-Id'') = None"
  using user_header_iff_session [of initial_state no_kwargs default_config toy_lib net_timeout
          "py ''GET''" "py ''/leads/list''" "Some (py ''u1'')" "Enrich_lead (py ''l1'')"
          "[List_leads (py ''u1'') None, Get_lead (py ''l1'')]" "py ''u1''" initial_state
          "[Get_lead (py ''l1''), Summarize_pipeline []]"]
  by (simp add: initial_state_def no_kwargs_def or_default_def dict_get_def py_def snd_api
                supplied_user_id_def)

text \<open>
  C2. When \<open>_api\<close> is given a non-empty \<open>user_id\<close> \<open>u\<close>, the session identity is \<open>u\<close> when the
  request is built: the one request handed to the HTTP library carries \<open>X-User-Id: u\<close>, the
  state afterwards holds \<open>u\<close>, and the outcome is the same on a network that answers only
  requests carrying that header.
\<close>

theorem user_id_set_before_request:
  assumes "u \<noteq> []"
  shows "session_user_id (snd (api C L net meth path (Some u) kw s)) = Some u
       \<and> sent (snd (api C L net meth path (Some u) kw s))
           = sent s @ [build_request C meth path kw (Some u)]
       \<and> header (build_request C meth path kw (Some u)) (py ''X-User-Id'') = Some u
       \<and> fst (api C L net meth path (Some u) kw s)
           = fst (api C L (\<lambda>h r. if header r (py ''X-User-Id'') = Some u then net h r
                                  else Raises ConnectionError) meth path (Some u) kw s)"
proof -
  have a: "header (build_request C meth path kw (Some u)) (py ''X-User-Id'') = Some u"
    using assms by (simp add: header_user_id)
  have b: "fst (api C L net meth path (Some u) kw s)
           = fst (api C L (\<lambda>h r. if header r (py ''X-User-Id'') = Some u then net h r
                                  else Raises ConnectionError) meth path (Some u) kw s)"
    using assms a by (simp add: api_def Let_def)
  show ?thesis using assms a b by (simp add: snd_api)
qed

theorem user_id_set_before_request_witness:
  "py ''u2'' \<noteq> []
   \<and> session_user_id (snd (api default_config toy_lib net_timeout (py ''GET'') (py ''/leads/list'')
         (Some (py ''u2'')) no_kwargs \<lparr>session_user_id = Some (py ''u1''), sent = []\<rparr>)) = Some (py ''u2'')
   \<and> header (build_request default_config (py ''GET'') (py ''/leads/list'') no_kwargs (Some (py ''u2'')))
         (py ''X-User-Id'') = Some (py ''u2'')"
  using user_id_set_before_request [of "py ''u2''" default_config toy_lib net_timeout "py ''GET''"
          "py ''/leads/list''" no_kwargs "\<lparr>session_user_id = Some (py ''u1''), sent = []\<rparr>"]
  by (simp add: py_def)

text \<open>
  C3. The request of every \<open>_api\<close> call, whatever its keyword arguments and the state, and so
  of every tool invocation, carries \<open>X-Internal-Key\<close> with the configured key.
\<close>

theorem internal_key_always_sent:
  "header (last (sent (snd (api C L net meth path user_id kw s)))) (py ''X-Internal-Key'')
     = Some (INTERNAL_KEY C)
   \<and> header (last (sent (snd (invoke C L net call s)))) (py ''X-Internal-Key'') = Some (INTERNAL_KEY C)
   \<and> sent (snd (invoke C L net call s)) = sent s @ [last (sent (snd (invoke C L net call s)))]"
  by (simp add: snd_api snd_invoke header_internal_key split: prod.splits)

lemma digits_404: "digits_of_nat 404 = py ''404''"
  by (simp add: digits_of_nat.simps py_def)

lemma raise_not_found:
  "raise_for_status not_found_response
     = Some (HTTPError (py ''404 Client Error: NOT FOUND for url: http://localhost:5000/leads/l1'')
               not_found_response)"
  by (simp add: raise_for_status_def not_found_response_def digits_404) (simp add: py_def)

lemma loads_error_body:
  "loads toy_lib (py ''{\"error\":\"not found\"}'')
     = Inr (JDict [(py ''error'', JStr (py ''not found''))])"
  by code_simp

lemma dumps_error_body:
  "dumps_indent2 toy_lib (JDict [(py ''error'', JStr (py ''not found''))])
     = py ''{\<newline>  \"error\": \"not found\"\<newline>}''"
  by code_simp

text \<open>
  C4, as stated, fails twice. A 404 whose body is \<open>{"error":"not found"}\<close> raises an
  \<open>HTTPError\<close> whose message is the library's \<open>404 Client Error: ... for url: ...\<close>, not the
  \<open>error\<close> field of the body; and a response with status 300, which is not 2xx, raises
  nothing: its body is decoded and returned.
\<close>

theorem upstream_error_counterexample:
  "fst (invoke default_config toy_lib net_not_found (Get_lead (py ''l1'')) initial_state)
     = Inl (HTTPError (py ''404 Client Error: NOT FOUND for url: http://localhost:5000/leads/l1'')
              not_found_response)
   \<and> py ''404 Client Error: NOT FOUND for url: http://localhost:5000/leads/l1'' \<noteq> py ''not found''
   \<and> status_code multiple_choices_response = 300
   \<and> fst (invoke default_config toy_lib net_multiple_choices (Get_lead (py ''l1'')) initial_state)
       = Inr (py ''{\<newline>  \"error\": \"not found\"\<newline>}'')"
proof -
  have a: "fst (invoke default_config toy_lib net_not_found (Get_lead (py ''l1'')) initial_state)
     = Inl (HTTPError (py ''404 Client Error: NOT FOUND for url: http://localhost:5000/leads/l1'')
              not_found_response)"
    by (simp add: invoke_def render_def api_def Let_def net_not_found_def raise_not_found)
  have b: "py ''404 Client Error: NOT FOUND for url: http://localhost:5000/leads/l1'' \<noteq> py ''not found''"
    by (simp add: py_def)
  have c: "status_code multiple_choices_response = 300"
    by (simp add: multiple_choices_response_def)
  have r: "raise_for_status multiple_choices_response = None"
    by (simp add: raise_for_status_def multiple_choices_response_def)
  have t: "text_body multiple_choices_response = py ''{\"error\":\"not found\"}''"
    by (simp add: multiple_choices_response_def)
  have d: "fst (invoke default_config toy_lib net_multiple_choices (Get_lead (py ''l1'')) initial_state)
       = Inr (py ''{\<newline>  \"error\": \"not found\"\<newline>}'')"
    by (simp add: invoke_def render_def api_def Let_def net_multiple_choices_def r t
                  loads_error_body dumps_error_body)
  show ?thesis using a b c d by simp
qed

lemma last_sent_invoke:
  "api_args call = (meth, path, user_id, kw) \<Longrightarrow>
   last (sent (snd (invoke C L net call s)))
     = build_request C meth path kw (if truthy user_id then user_id else session_user_id s)"
  by (simp add: snd_invoke snd_api)

lemma raise_for_status_error:
  "400 \<le> status_code resp \<Longrightarrow> status_code resp < 600 \<Longrightarrow>
   raise_for_status resp
     = Some (HTTPError (digits_of_nat (status_code resp)
                        @ (if status_code resp < 500 then py '' Client Error: ''
                           else py '' Server Error: '')
                        @ reason resp @ py '' for url: '' @ url resp) resp)"
  by (simp add: raise_for_status_def)

lemma fst_api_returns:
  "net (sent s) (build_request C meth path kw (if truthy user_id then user_id else session_user_id s))
     = Returns resp \<Longrightarrow>
   raise_for_status resp = Some e \<Longrightarrow>
   fst (api C L net meth path user_id kw s) = Inl e"
  by (simp add: api_def Let_def)

lemma fst_invoke_returns:
  "api_args call = (meth, path, user_id, kw) \<Longrightarrow>
   net (sent s) (build_request C meth path kw (if truthy user_id then user_id else session_user_id s))
     = Returns resp \<Longrightarrow>
   raise_for_status resp = Some e \<Longrightarrow>
   fst (invoke C L net call s) = Inl e"
  by (simp add: invoke_def render_def api_def Let_def)

text \<open>
  C4, amended. When the response the HTTP library returns for the request has a status from
  400 to 599, \<open>_api\<close>, and so the tool invocation, fails with an \<open>HTTPError\<close> that holds the
  response itself (so its status code and its body text, unchanged) and the library's message
  \<open><status> Client Error: <reason> for url: <url>\<close> (\<open>Server Error\<close> from 500). Nothing is
  stated for the other statuses.
\<close>

theorem http_error_on_4xx_5xx:
  assumes "400 \<le> status_code resp" and "status_code resp < 600"
  shows "(net (sent s) (build_request C meth path kw
                 (if truthy user_id then user_id else session_user_id s)) = Returns resp \<longrightarrow>
            fst (api C L net meth path user_id kw s)
              = Inl (HTTPError (digits_of_nat (status_code resp)
                                @ (if status_code resp < 500 then py '' Client Error: ''
                                   else py '' Server Error: '')
                                @ reason resp @ py '' for url: '' @ url resp) resp))
       \<and> (net (sent s) (last (sent (snd (invoke C L net call s)))) = Returns resp \<longrightarrow>
            fst (invoke C L net call s)
              = Inl (HTTPError (digits_of_nat (status_code resp)
                                @ (if status_code resp < 500 then py '' Client Error: ''
                                   else py '' Server Error: '')
                                @ reason resp @ py '' for url: '' @ url resp) resp))"
proof -
  obtain meth' path' user_id' kw' where a: "api_args call = (meth', path', user_id', kw')"
    by (cases "api_args call") auto
  show ?thesis
    using fst_api_returns [OF _ raise_for_status_error [OF assms], of net s C meth path kw user_id L]
      fst_invoke_returns [OF a _ raise_for_status_error [OF assms], of net s C L]
      last_sent_invoke [OF a, of C L net s]
    by simp
qed

theorem http_error_on_4xx_5xx_witness:
  "400 \<le> status_code not_found_response \<and> status_code not_found_response < 600
   \<and> net_not_found (sent initial_state)
        (last (sent (snd (invoke default_config toy_lib net_not_found (Get_lead (py ''l1'')) initial_state))))
       = Returns not_found_response
   \<and> fst (invoke default_config toy_lib net_not_found (Get_lead (py ''l1'')) initial_state)
       = Inl (HTTPError (py ''404 Client Error: NOT FOUND for url: http://localhost:5000/leads/l1'')
                not_found_response)
   \<and> status_code not_found_response = 404
   \<and> text_body not_found_response = py ''{\"error\":\"not found\"}''"
  using http_error_on_4xx_5xx [of not_found_response net_not_found initial_state default_config
           "py ''GET''" "py ''/leads/l1''" no_kwargs None toy_lib "Get_lead (py ''l1'')"] digits_404
  by (simp add: net_not_found_def not_found_response_def) (simp add: py_def)

















































text \<open>
  C7. \<open>search_leads\<close> with none of the four optional filters sends the JSON body
  \<open>{"filters": {}}\<close>: the filter object has no key at all.
\<close>

theorem search_leads_no_filters:
  "req_json (last (sent (snd (invoke C L net (Search_leads user_id None None None None) s))))
     = Some (JDict [(py ''filters'', JDict [])])
   \<and> search_filters None None None None = []"
  by (simp add: snd_invoke snd_api build_request_def no_kwargs_def search_filters_def Let_def)

text \<open>
  C8. The session identity is unset in the initial state. After any sequence of tool
  invocations it is the most recent non-empty \<open>user_id\<close> the sequence supplied, and the
  identity from before when the sequence supplied none; so an identity that is set stays set,
  and no invocation brings it back to unset.
\<close>

theorem session_identity_lifecycle:
  "session_user_id initial_state = None
   \<and> session_user_id (run C L net calls s)
       = (case last_user_id calls of Some u \<Rightarrow> Some u | None \<Rightarrow> session_user_id s)
   \<and> (session_user_id s \<noteq> None \<longrightarrow> session_user_id (run C L net calls s) \<noteq> None)
   \<and> (truthy (session_user_id s) \<longrightarrow> truthy (session_user_id (run C L net calls s)))"
proof -
  have a: "session_user_id initial_state = None" by (simp add: initial_state_def)
  have b: "session_user_id s \<noteq> None \<longrightarrow> session_user_id (run C L net calls s) \<noteq> None"
    by (simp add: session_after_run split: option.splits)
  have c: "truthy (session_user_id s) \<longrightarrow> truthy (session_user_id (run C L net calls s))"
    by (auto simp: session_after_run split: option.splits dest: last_user_id_truthy)
  show ?thesis using a b c session_after_run by blast
qed

theorem session_identity_lifecycle_witness:
  "session_user_id (run default_config toy_lib net_not_found
      [Search_leads (py ''u1'') None None None None, Get_lead (py ''l1''),
       List_leads (py ''u2'') None, Enrich_lead (py ''l1''), Summarize_pipeline []]
      initial_state) = Some (py ''u2'')
   \<and> session_user_id (run default_config toy_lib net_not_found
        [Get_lead (py ''l1''), Summarize_pipeline []]
        \<lparr>session_user_id = Some (py ''u1''), sent = []\<rparr>) \<noteq> None"
  using session_identity_lifecycle [of default_config toy_lib net_not_found
      "[Search_leads (py ''u1'') None None None None, Get_lead (py ''l1''),
       List_leads (py ''u2'') None, Enrich_lead (py ''l1''), Summarize_pipeline []]" initial_state]
    session_identity_lifecycle [of default_config toy_lib net_not_found
      "[Get_lead (py ''l1''), Summarize_pipeline []]" "\<lparr>session_user_id = Some (py ''u1''), sent = []\<rparr>"]
  by (simp add: supplied_user_id_def py_def)

text \<open>
  C9. When \<open>_api\<close> is given a non-empty \<open>user_id\<close> \<open>u\<close> and then fails, by an exception of the
  HTTP library, an error status or an undecodable body, the session identity afterwards is
  still \<open>u\<close>, and a later invocation without \<open>user_id\<close> sends \<open>X-User-Id: u\<close>.
\<close>

theorem identity_kept_on_failure:
  assumes "u \<noteq> []"
    and "fst (api C L net meth path (Some u) kw s) = Inl e"
  shows "session_user_id (snd (api C L net meth path (Some u) kw s)) = Some u
       \<and> header (last (sent (snd (invoke C L net' (Get_lead lead_id)
                   (snd (api C L net meth path (Some u) kw s)))))) (py ''X-User-Id'') = Some u"
  using assms by (simp add: snd_api snd_invoke header_user_id)

theorem identity_kept_on_failure_witness:
  "py ''u1'' \<noteq> []
   \<and> fst (api default_config toy_lib net_not_found (py ''GET'') (py ''/leads/l1'') (Some (py ''u1''))
           no_kwargs initial_state)
       = Inl (HTTPError (py ''404 Client Error: NOT FOUND for url: http://localhost:5000/leads/l1'')
                not_found_response)
   \<and> session_user_id (snd (api default_config toy_lib net_not_found (py ''GET'') (py ''/leads/l1'')
         (Some (py ''u1'')) no_kwargs initial_state)) = Some (py ''u1'')
   \<and> header (last (sent (snd (invoke default_config toy_lib net_timeout (Get_lead (py ''l1''))
         (snd (api default_config toy_lib net_not_found (py ''GET'') (py ''/leads/l1'')
                (Some (py ''u1'')) no_kwargs initial_state)))))) (py ''X-User-Id'') = Some (py ''u1'')"
proof -
  have n: "py ''u1'' \<noteq> []" by (simp add: py_def)
  have f: "fst (api default_config toy_lib net_not_found (py ''GET'') (py ''/leads/l1'') (Some (py ''u1''))
           no_kwargs initial_state)
       = Inl (HTTPError (py ''404 Client Error: NOT FOUND for url: http://localhost:5000/leads/l1'')
                not_found_response)"
    by (simp add: api_def Let_def net_not_found_def raise_not_found)
  show ?thesis
    using n f identity_kept_on_failure [OF n f, of net_timeout "py ''l1''"] by simp
qed

text \<open>
  C10. An empty \<open>user_id\<close> is treated as none: \<open>_api\<close> leaves the session identity as it was,
  and the \<open>X-User-Id\<close> header of the request is the identity from before when there is one (no
  header from the bridge otherwise), never the empty string; so it is for a tool called with
  \<open>user_id=""\<close>.
\<close>

theorem empty_user_id_is_absent:
  "session_user_id (snd (api C L net meth path (Some []) kw s)) = session_user_id s
   \<and> header (last (sent (snd (api C L net meth path (Some []) kw s)))) (py ''X-User-Id'')
       = (if truthy (session_user_id s) then session_user_id s
          else dict_get (or_default (kw_headers kw) []) (py ''X-User-Id''))
   \<and> session_user_id (snd (invoke C L net (List_leads [] temperature) s)) = session_user_id s
   \<and> header (last (sent (snd (invoke C L net (List_leads [] temperature) s)))) (py ''X-User-Id'')
       = (if truthy (session_user_id s) then session_user_id s else None)"
  by (simp add: snd_api snd_invoke header_user_id no_kwargs_def or_default_def dict_get_def)

end
